theory Spec2Isabelle
  imports Main
begin

section \<open>Lab 7: the survival data cell of the notebook\<close>

text \<open>
  The notebook \<^verbatim>\<open>Lab7.ipynb\<close> holds one cell of original logic:
  \<^verbatim>\<open>
  clinical_data = clinical.copy()
  clinical_data["Date of Last Known Alive"] = pd.to_datetime(clinical_data["Date of Last Known Alive"], format="%m/%d/%Y")
  clinical_data["CT Date"] = pd.to_datetime(clinical_data["CT Date"], format="%m/%d/%Y")
  clinical_data["time"] = (clinical_data["Date of Last Known Alive"] - clinical_data["CT Date"]).dt.days - clinical_data['Days between CT and surgery']
  clinical_data["event"] = clinical_data["Survival Status"].apply(lambda x: True if x == "Death" else False)
  survival_data = Surv.from_dataframe("event", "time", clinical_data)
  \<close>
  It is embedded statement by statement, over an interpreter state that holds the
  data frames as objects at addresses, so that the copy of the first line and the
  column assignments of the next four are what they are in Python: updates of one
  object in place.
\<close>

subsection \<open>Exceptions\<close>

text \<open>
  An exception is modelled by its class; \<^verbatim>\<open>NameError\<close> and \<^verbatim>\<open>KeyError\<close> carry the
  name that is missing. The text of a message is not modelled.
\<close>

datatype py_error =
    NameError string
  | KeyError string
  | TypeError
  | ValueError
  | OverflowError

subsection \<open>Calendar dates\<close>

text \<open>
  A timestamp parsed by the format \<^verbatim>\<open>%m/%d/%Y\<close> is a calendar date at midnight.
  The day number of a date is the proleptic Gregorian ordinal of Python's
  \<^verbatim>\<open>datetime.date.toordinal\<close>; the difference of two timestamps, read through
  \<^verbatim>\<open>.dt.days\<close>, is the difference of their day numbers.
\<close>

datatype date = Date (year: int) (month: int) (day: int)

definition is_leap :: "int \<Rightarrow> bool" where
  "is_leap y = (if y mod 4 = 0 then (if y mod 100 = 0 then y mod 400 = 0 else True) else False)"

definition DAYS_IN_MONTH :: "int list" where
  "DAYS_IN_MONTH = [-1, 31, 28, 31, 30, 31, 30, 31, 31, 30, 31, 30, 31]"

definition DAYS_BEFORE_MONTH :: "int list" where
  "DAYS_BEFORE_MONTH = [-1, 0, 31, 59, 90, 120, 151, 181, 212, 243, 273, 304, 334]"

definition days_in_month :: "int \<Rightarrow> int \<Rightarrow> int" where
  "days_in_month y m = (if m = 2 \<and> is_leap y then 29 else DAYS_IN_MONTH ! nat m)"

definition days_before_year :: "int \<Rightarrow> int" where
  "days_before_year y = (let y1 = y - 1 in y1 * 365 + y1 div 4 - y1 div 100 + y1 div 400)"

definition days_before_month :: "int \<Rightarrow> int \<Rightarrow> int" where
  "days_before_month y m = DAYS_BEFORE_MONTH ! nat m + (if m > 2 \<and> is_leap y then 1 else 0)"

definition toordinal :: "date \<Rightarrow> int" where
  "toordinal d = days_before_year (year d) + days_before_month (year d) (month d) + day d"

text \<open>
  The constructor of \<^verbatim>\<open>datetime.date\<close> refuses a year outside 1..9999, a month
  outside 1..12 and a day the month does not have.
\<close>

definition valid_date :: "date \<Rightarrow> bool" where
  "valid_date d =
     (1 \<le> year d \<and> year d \<le> 9999 \<and> 1 \<le> month d \<and> month d \<le> 12 \<and>
      1 \<le> day d \<and> day d \<le> days_in_month (year d) (month d))"

text \<open>
  A nanosecond timestamp (the unit \<^verbatim>\<open>to_datetime\<close> gives parsed strings in pandas 2)
  holds the midnights from 1677-09-22 to 2262-04-11; a date outside raises
  \<^verbatim>\<open>OutOfBoundsDatetime\<close>, which is a \<^verbatim>\<open>ValueError\<close>.
\<close>

definition in_bounds :: "date \<Rightarrow> bool" where
  "in_bounds d =
     (toordinal (Date 1677 9 22) \<le> toordinal d \<and> toordinal d \<le> toordinal (Date 2262 4 11))"

subsection \<open>Parsing one date string under the format %m/%d/%Y\<close>

text \<open>
  The format compiles to the regular expression
  \<^verbatim>\<open>(?P<m>1[0-2]|0[1-9]|[1-9])/(?P<d>3[0-1]|[1-2]\d|0[1-9]|[1-9]| [1-9])/(?P<Y>\d\d\d\d)\<close>
  and the whole string has to match it. No alternative of the month or of the day holds
  a slash, so the month is the text before the first slash, the day the text between
  the first and the second, and the year the rest. The digits are the ASCII digits.
\<close>

definition is_digit :: "char \<Rightarrow> bool" where
  "is_digit c = (c \<in> set ''0123456789'')"

definition is_digit19 :: "char \<Rightarrow> bool" where
  "is_digit19 c = (c \<in> set ''123456789'')"

definition digit_val :: "char \<Rightarrow> int" where
  "digit_val c = int (of_char c) - 48"

definition int_of_digits :: "string \<Rightarrow> int" where
  "int_of_digits s = foldl (\<lambda>n c. 10 * n + digit_val c) 0 s"

fun match_m :: "string \<Rightarrow> int option" where
  "match_m [a] = (if is_digit19 a then Some (digit_val a) else None)"
| "match_m [a, b] =
     (if a = CHR ''1'' \<and> b \<in> set ''012'' then Some (int_of_digits [a, b])
      else if a = CHR ''0'' \<and> is_digit19 b then Some (int_of_digits [a, b])
      else None)"
| "match_m _ = None"

fun match_d :: "string \<Rightarrow> int option" where
  "match_d [a] = (if is_digit19 a then Some (digit_val a) else None)"
| "match_d [a, b] =
     (if a = CHR ''3'' \<and> b \<in> set ''01'' then Some (int_of_digits [a, b])
      else if a \<in> set ''12'' \<and> is_digit b then Some (int_of_digits [a, b])
      else if a = CHR ''0'' \<and> is_digit19 b then Some (int_of_digits [a, b])
      else if a = CHR '' '' \<and> is_digit19 b then Some (digit_val b)
      else None)"
| "match_d _ = None"

fun match_Y :: "string \<Rightarrow> int option" where
  "match_Y [a, b, c, d] =
     (if is_digit a \<and> is_digit b \<and> is_digit c \<and> is_digit d
      then Some (int_of_digits [a, b, c, d]) else None)"
| "match_Y _ = None"

definition split_slash :: "string \<Rightarrow> (string \<times> string) option" where
  "split_slash s =
     (case dropWhile (\<lambda>c. c \<noteq> CHR ''/'') s of
        [] \<Rightarrow> None
      | _ # rest \<Rightarrow> Some (takeWhile (\<lambda>c. c \<noteq> CHR ''/'') s, rest))"

definition strptime :: "string \<Rightarrow> py_error + date" where
  "strptime s =
     (case split_slash s of
        None \<Rightarrow> Inl ValueError
      | Some (ms, rest) \<Rightarrow>
          (case split_slash rest of
             None \<Rightarrow> Inl ValueError
           | Some (ds, ys) \<Rightarrow>
               (case (match_m ms, match_d ds, match_Y ys) of
                  (Some m, Some d, Some y) \<Rightarrow>
                    (if valid_date (Date y m d) \<and> in_bounds (Date y m d)
                     then Inr (Date y m d) else Inl ValueError)
                | _ \<Rightarrow> Inl ValueError)))"

subsection \<open>Columns and data frames\<close>

text \<open>
  \<^verbatim>\<open>read_csv\<close> gives \<^verbatim>\<open>clinical.csv\<close> typed columns. A date column starts as
  an object column of strings and becomes a datetime column when the cell assigns the
  parsed dates to it. A missing cell (NaN in an object or numeric column, NaT in a
  datetime column) is \<open>None\<close>. The offset column is numeric; its values are integers
  and the theorems keep them in the range where the arithmetic of the library's 64-bit
  integers and floats is exact. The columns the cell never names, the subject identifier
  among them, are carried with their names as they were read.
\<close>

datatype date_col = ObjectCol "string option list" | DatetimeCol "date option list"

text \<open>A timedelta is a number of nanoseconds, held in 64 bits.\<close>

datatype timedelta = Timedelta (ns: int)

record frame =
  other_columns :: "(string \<times> string list) list"
  Date_of_Last_Known_Alive :: date_col
  CT_Date :: date_col
  Days_between_CT_and_surgery :: "int option list"
  Survival_Status :: "string option list"
  time :: "int option list option"
  event :: "bool list option"

subsection \<open>The library calls of the cell\<close>

text \<open>
  \<^verbatim>\<open>pd.to_datetime(column, format="%m/%d/%Y")\<close> with the default \<^verbatim>\<open>errors="raise"\<close>
  walks the column in row order: a missing cell, an empty string and the strings that
  denote NaT give NaT; any other string is parsed, and the first one that does not parse
  raises, for the whole column. A column that is already a datetime column is returned
  as it is.
\<close>

definition nat_strings :: "string list" where
  "nat_strings = [''NaT'', ''nat'', ''NAT'', ''nan'', ''NaN'', ''NAN'']"

definition to_datetime_cell :: "string option \<Rightarrow> py_error + date option" where
  "to_datetime_cell x =
     (case x of
        None \<Rightarrow> Inr None
      | Some s \<Rightarrow>
          (if s = [] \<or> s \<in> set nat_strings then Inr None
           else (case strptime s of Inl e \<Rightarrow> Inl e | Inr d \<Rightarrow> Inr (Some d))))"

fun array_strptime :: "string option list \<Rightarrow> py_error + date option list" where
  "array_strptime [] = Inr []"
| "array_strptime (x # xs) =
     (case to_datetime_cell x of
        Inl e \<Rightarrow> Inl e
      | Inr d \<Rightarrow> (case array_strptime xs of Inl e \<Rightarrow> Inl e | Inr ds \<Rightarrow> Inr (d # ds)))"

definition to_datetime :: "date_col \<Rightarrow> py_error + date option list" where
  "to_datetime c = (case c of ObjectCol xs \<Rightarrow> array_strptime xs | DatetimeCol ds \<Rightarrow> Inr ds)"

text \<open>
  Datetime column minus datetime column. Both hold nanoseconds since the epoch in 64-bit
  integers; the difference of two midnights is the difference of their day numbers in
  nanoseconds, and NaT where either is NaT. The subtraction is checked: when the
  difference of a row leaves the 64-bit range (the dates are more than 106751 days
  apart) the whole subtraction raises \<^verbatim>\<open>OverflowError\<close>.
\<close>

definition NS_PER_DAY :: int where
  "NS_PER_DAY = 86400000000000"

definition int64_fits :: "int \<Rightarrow> bool" where
  "int64_fits v = (- (2 ^ 63) \<le> v \<and> v < 2 ^ 63)"

definition delta_ns :: "date option \<Rightarrow> date option \<Rightarrow> int option" where
  "delta_ns x y =
     (case x of
        None \<Rightarrow> None
      | Some a \<Rightarrow>
          (case y of
             None \<Rightarrow> None
           | Some b \<Rightarrow> Some ((toordinal a - toordinal b) * NS_PER_DAY)))"

definition delta_fits :: "int option \<Rightarrow> bool" where
  "delta_fits v = (case v of None \<Rightarrow> True | Some n \<Rightarrow> int64_fits n)"

definition sub_datetime ::
  "date option list \<Rightarrow> date option list \<Rightarrow> py_error + timedelta option list" where
  "sub_datetime xs ys =
     (let vs = map2 delta_ns xs ys in
      if list_all delta_fits vs then Inr (map (map_option Timedelta) vs)
      else Inl OverflowError)"

text \<open>\<^verbatim>\<open>.dt.days\<close>: the whole days of each timedelta, NaN for NaT.\<close>

definition dt_days :: "timedelta option list \<Rightarrow> int option list" where
  "dt_days ts = map (map_option (\<lambda>t. ns t div NS_PER_DAY)) ts"

text \<open>Numeric column minus numeric column: NaN where either is NaN.\<close>

definition sub_series :: "int option list \<Rightarrow> int option list \<Rightarrow> int option list" where
  "sub_series xs ys =
     map2 (\<lambda>x y. case (x, y) of (Some a, Some b) \<Rightarrow> Some (a - b) | _ \<Rightarrow> None) xs ys"

text \<open>The lambda of the cell: \<^verbatim>\<open>lambda x: True if x == "Death" else False\<close>.\<close>

definition classify_event :: "string option \<Rightarrow> bool" where
  "classify_event x = (if x = Some ''Death'' then True else False)"

subsection \<open>The interpreter state\<close>

text \<open>
  Data frames are objects: the heap lists them by address, and a global name is bound to
  an address or unbound. \<^verbatim>\<open>survival_data\<close> is a structured array of (event, time)
  pairs, the time a float (NaN is \<open>None\<close>). Every bound name refers to an allocated
  object.
\<close>

type_synonym addr = nat

type_synonym surv = "(bool \<times> int option) list"

record pystate =
  heap :: "frame list"
  clinical :: "addr option"
  clinical_data :: "addr option"
  survival_data :: "surv option"

type_synonym stmt = "pystate \<Rightarrow> py_error option \<times> pystate"

text \<open>\<^verbatim>\<open>df[name] = column\<close> on the object at an address.\<close>

definition setitem :: "addr \<Rightarrow> (frame \<Rightarrow> frame) \<Rightarrow> pystate \<Rightarrow> pystate" where
  "setitem a upd s = s\<lparr>heap := (heap s)[a := upd (heap s ! a)]\<rparr>"

text \<open>\<^verbatim>\<open>clinical_data = clinical.copy()\<close>: a new object with the same contents.\<close>

definition stmt_copy :: stmt where
  "stmt_copy s =
     (case clinical s of
        None \<Rightarrow> (Some (NameError ''clinical''), s)
      | Some a \<Rightarrow>
          (None, s\<lparr>heap := heap s @ [heap s ! a], clinical_data := Some (length (heap s))\<rparr>))"

definition stmt_last_alive :: stmt where
  "stmt_last_alive s =
     (case clinical_data s of
        None \<Rightarrow> (Some (NameError ''clinical_data''), s)
      | Some a \<Rightarrow>
          (case to_datetime (Date_of_Last_Known_Alive (heap s ! a)) of
             Inl e \<Rightarrow> (Some e, s)
           | Inr ds \<Rightarrow>
               (None, setitem a (\<lambda>f. f\<lparr>Date_of_Last_Known_Alive := DatetimeCol ds\<rparr>) s)))"

definition stmt_ct_date :: stmt where
  "stmt_ct_date s =
     (case clinical_data s of
        None \<Rightarrow> (Some (NameError ''clinical_data''), s)
      | Some a \<Rightarrow>
          (case to_datetime (CT_Date (heap s ! a)) of
             Inl e \<Rightarrow> (Some e, s)
           | Inr ds \<Rightarrow> (None, setitem a (\<lambda>f. f\<lparr>CT_Date := DatetimeCol ds\<rparr>) s)))"

text \<open>
  The time column. A column of strings has no subtraction: the difference of the two
  columns is taken only when both are datetime columns, and it raises when a difference
  overflows; nothing is assigned then.
\<close>

definition stmt_time :: stmt where
  "stmt_time s =
     (case clinical_data s of
        None \<Rightarrow> (Some (NameError ''clinical_data''), s)
      | Some a \<Rightarrow>
          (let f = heap s ! a in
           case (Date_of_Last_Known_Alive f, CT_Date f) of
             (DatetimeCol xs, DatetimeCol ys) \<Rightarrow>
               (case sub_datetime xs ys of
                  Inl e \<Rightarrow> (Some e, s)
                | Inr ts \<Rightarrow>
                    (None,
                     setitem a
                       (\<lambda>g. g\<lparr>time :=
                          Some (sub_series (dt_days ts) (Days_between_CT_and_surgery f))\<rparr>) s))
           | _ \<Rightarrow> (Some TypeError, s)))"

definition stmt_event :: stmt where
  "stmt_event s =
     (case clinical_data s of
        None \<Rightarrow> (Some (NameError ''clinical_data''), s)
      | Some a \<Rightarrow>
          (None,
           setitem a (\<lambda>g. g\<lparr>event := Some (map classify_event (Survival_Status (heap s ! a)))\<rparr>) s))"

text \<open>
  \<^verbatim>\<open>Surv.from_dataframe("event", "time", clinical_data)\<close> reads the two columns and
  pairs them row by row; it changes no frame. It takes a boolean event column as it is.
  On a frame without rows \<^verbatim>\<open>.apply\<close> has returned an object column, not a boolean one,
  and the routine, finding no two event values in it, raises \<^verbatim>\<open>ValueError\<close> (event
  indicator must be binary).
\<close>

definition stmt_surv :: stmt where
  "stmt_surv s =
     (case clinical_data s of
        None \<Rightarrow> (Some (NameError ''clinical_data''), s)
      | Some a \<Rightarrow>
          (case event (heap s ! a) of
             None \<Rightarrow> (Some (KeyError ''event''), s)
           | Some ev \<Rightarrow>
               (case time (heap s ! a) of
                  None \<Rightarrow> (Some (KeyError ''time''), s)
                | Some tm \<Rightarrow>
                    (if ev = [] then (Some ValueError, s)
                     else (None, s\<lparr>survival_data := Some (zip ev tm)\<rparr>)))))"

text \<open>Statements run in order; an exception stops the cell and leaves the state as it is.\<close>

fun run_stmts :: "stmt list \<Rightarrow> stmt" where
  "run_stmts [] s = (None, s)"
| "run_stmts (p # ps) s =
     (case p s of (Some e, s') \<Rightarrow> (Some e, s') | (None, s') \<Rightarrow> run_stmts ps s')"

definition run_cell :: stmt where
  "run_cell =
     run_stmts [stmt_copy, stmt_last_alive, stmt_ct_date, stmt_time, stmt_event, stmt_surv]"

subsection \<open>The cell as the builder of the survival table\<close>

text \<open>
  What a run of the cell hands on: the exception, or the frame bound to
  \<^verbatim>\<open>clinical_data\<close> with the array bound to \<^verbatim>\<open>survival_data\<close>. The builder is the
  cell run in a state whose only object is the input frame, bound to \<^verbatim>\<open>clinical\<close>.
\<close>

definition outcome :: "py_error option \<times> pystate \<Rightarrow> py_error + frame \<times> surv" where
  "outcome r =
     (case r of
        (Some e, _) \<Rightarrow> Inl e
      | (None, s) \<Rightarrow>
          (case clinical_data s of
             None \<Rightarrow> Inl (NameError ''clinical_data'')
           | Some a \<Rightarrow>
               (case survival_data s of
                  None \<Rightarrow> Inl (NameError ''survival_data'')
                | Some sv \<Rightarrow> Inr (heap s ! a, sv))))"

definition fresh :: "frame \<Rightarrow> pystate" where
  "fresh f = \<lparr>heap = [f], clinical = Some 0, clinical_data = None, survival_data = None\<rparr>"

definition build :: "frame \<Rightarrow> py_error + frame \<times> surv" where
  "build f = outcome (run_cell (fresh f))"

subsection \<open>Notions used to state the properties\<close>

text \<open>The time column of the cell, from the difference of the date columns and the offsets.\<close>

definition time_column :: "timedelta option list \<Rightarrow> int option list \<Rightarrow> int option list" where
  "time_column ts offs = sub_series (dt_days ts) offs"

text \<open>The frame after the four column assignments.\<close>

definition built ::
  "frame \<Rightarrow> date option list \<Rightarrow> date option list \<Rightarrow> timedelta option list \<Rightarrow> frame" where
  "built f xs ys ts =
     f\<lparr>Date_of_Last_Known_Alive := DatetimeCol xs, CT_Date := DatetimeCol ys,
       time := Some (time_column ts (Days_between_CT_and_surgery f)),
       event := Some (map classify_event (Survival_Status f))\<rparr>"

text \<open>
  A date cell is malformed when \<^verbatim>\<open>to_datetime\<close> raises on it. The parsed cell of a
  cell that is not malformed is its timestamp, or NaT.
\<close>

definition malformed :: "string option \<Rightarrow> bool" where
  "malformed x = (case to_datetime_cell x of Inl _ \<Rightarrow> True | Inr _ \<Rightarrow> False)"

definition parsed_cell :: "string option \<Rightarrow> date option" where
  "parsed_cell x = (case to_datetime_cell x of Inl _ \<Rightarrow> None | Inr d \<Rightarrow> d)"

definition parsed_column :: "string option list \<Rightarrow> date option list" where
  "parsed_column xs = map parsed_cell xs"

text \<open>
  The two dates of a row are too far apart when their difference in nanoseconds does not
  fit 64 bits, that is, when they are more than 106751 days apart.
\<close>

definition gap_overflows :: "string option \<times> string option \<Rightarrow> bool" where
  "gap_overflows p = (\<not> delta_fits (delta_ns (parsed_cell (fst p)) (parsed_cell (snd p))))"

definition nrows :: "frame \<Rightarrow> nat" where
  "nrows f = length (Survival_Status f)"

definition offset_in_range :: "int option \<Rightarrow> bool" where
  "offset_in_range x = (case x of None \<Rightarrow> True | Some v \<Rightarrow> - (2 ^ 52) < v \<and> v < 2 ^ 52)"

text \<open>
  The frame \<^verbatim>\<open>read_csv\<close> gives for a table of clinical records: both date columns
  hold strings, every column named by the cell has one cell per row, and the offsets are
  integers of at most 52 bits (so that a difference of dates, at most 106751 days, minus
  the offset is exact both as a 64-bit integer and as a float).
\<close>

definition clinical_table :: "frame \<Rightarrow> string option list \<Rightarrow> string option list \<Rightarrow> bool" where
  "clinical_table f las cts =
     (Date_of_Last_Known_Alive f = ObjectCol las \<and> CT_Date f = ObjectCol cts \<and>
      length las = nrows f \<and> length cts = nrows f \<and>
      length (Days_between_CT_and_surgery f) = nrows f \<and>
      list_all offset_in_range (Days_between_CT_and_surgery f))"

text \<open>
  The tables the cell runs through, by their two date columns: at least one row, no
  malformed date string in any row, and no row whose two dates are too far apart. The
  offsets and the status labels play no part.
\<close>

definition runs_through :: "string option list \<Rightarrow> string option list \<Rightarrow> bool" where
  "runs_through las cts =
     (las \<noteq> [] \<and> list_all (\<lambda>x. \<not> malformed x) (las @ cts) \<and>
      list_all (\<lambda>p. \<not> gap_overflows p) (zip las cts))"

text \<open>
  The survival record of one clinical record, row-wise: the event of its status label,
  and the days from the CT date to the date last known alive minus the offset, undefined
  (NaN) when a date or the offset is missing.
\<close>

definition survival_record ::
  "string option \<Rightarrow> string option \<Rightarrow> int option \<Rightarrow> string option \<Rightarrow> bool \<times> int option" where
  "survival_record la ct off st =
     (classify_event st,
      case to_datetime_cell la of
        Inr (Some d1) \<Rightarrow>
          (case to_datetime_cell ct of
             Inr (Some d0) \<Rightarrow>
               (case off of Some n \<Rightarrow> Some (toordinal d1 - toordinal d0 - n) | None \<Rightarrow> None)
           | _ \<Rightarrow> None)
      | _ \<Rightarrow> None)"

subsection \<open>Example tables\<close>

text \<open>
  The end-to-end example of the specification (last known alive 2020-06-15, CT on
  2020-01-01, offset 10, status Death), a record whose CT date is after the date last
  known alive, a table of five well-formed records and one whose date is written
  year first, a table with a missing offset and a missing date, and the state of a
  session in which the cell has run before. Then the tables on which the cell raises
  although a record or the table is well formed: two records of which the second has
  no offset and dates 106752 days apart, two records of which the second has no offset
  and a date that is no calendar day, one record whose date last known alive is 106752
  days before its CT date, and the table without rows.
\<close>

definition example_row :: frame where
  "example_row =
     \<lparr>other_columns = [(''Case ID'', [''R01-001''])],
      Date_of_Last_Known_Alive = ObjectCol [Some ''06/15/2020''],
      CT_Date = ObjectCol [Some ''01/01/2020''],
      Days_between_CT_and_surgery = [Some 10],
      Survival_Status = [Some ''Death''],
      time = None, event = None\<rparr>"

definition early_row :: frame where
  "early_row =
     \<lparr>other_columns = [(''Case ID'', [''R01-002''])],
      Date_of_Last_Known_Alive = ObjectCol [Some ''01/01/2020''],
      CT_Date = ObjectCol [Some ''01/06/2020''],
      Days_between_CT_and_surgery = [Some 0],
      Survival_Status = [Some ''Alive''],
      time = None, event = None\<rparr>"

definition six_las :: "string option list" where
  "six_las =
     [Some ''06/15/2020'', Some ''03/01/2021'', Some ''12/31/2019'', Some ''2020-06-15'',
      Some ''7/4/2020'', Some ''02/29/2020'']"

definition six_cts :: "string option list" where
  "six_cts =
     [Some ''01/01/2020'', Some ''02/01/2021'', Some ''11/30/2019'', Some ''01/01/2020'',
      Some ''1/1/2020'', Some ''01/15/2020'']"

definition six_rows :: frame where
  "six_rows =
     \<lparr>other_columns = [(''Case ID'', [''S1'', ''S2'', ''S3'', ''S4'', ''S5'', ''S6''])],
      Date_of_Last_Known_Alive = ObjectCol six_las,
      CT_Date = ObjectCol six_cts,
      Days_between_CT_and_surgery = [Some 10, Some 0, Some 3, Some 5, Some 7, Some 1],
      Survival_Status =
        [Some ''Death'', Some ''Alive'', Some ''Alive'', Some ''Death'', Some ''Alive'',
         Some ''Death''],
      time = None, event = None\<rparr>"

definition mixed_las :: "string option list" where
  "mixed_las = [Some ''06/15/2020'', Some ''03/01/2021'', None, Some ''01/01/2020'']"

definition mixed_cts :: "string option list" where
  "mixed_cts = [Some ''01/01/2020'', Some ''02/01/2021'', Some ''11/30/2019'', Some ''01/06/2020'']"

definition mixed_rows :: frame where
  "mixed_rows =
     \<lparr>other_columns = [(''Case ID'', [''M1'', ''M2'', ''M3'', ''M4''])],
      Date_of_Last_Known_Alive = ObjectCol mixed_las,
      CT_Date = ObjectCol mixed_cts,
      Days_between_CT_and_surgery = [Some 10, None, Some 3, Some 0],
      Survival_Status = [Some ''Death'', Some ''Death'', Some ''Alive'', None],
      time = None, event = None\<rparr>"

definition later_session :: pystate where
  "later_session =
     \<lparr>heap = [early_row, example_row, early_row], clinical = Some 1,
      clinical_data = Some 2, survival_data = Some [(False, Some 3)]\<rparr>"

definition far_rows :: frame where
  "far_rows =
     \<lparr>other_columns = [(''Case ID'', [''F1'', ''F2''])],
      Date_of_Last_Known_Alive = ObjectCol [Some ''06/15/2020'', Some ''04/11/2192''],
      CT_Date = ObjectCol [Some ''01/01/2020'', Some ''01/01/1900''],
      Days_between_CT_and_surgery = [Some 10, None],
      Survival_Status = [Some ''Death'', Some ''Alive''],
      time = None, event = None\<rparr>"

definition refused_rows :: frame where
  "refused_rows =
     \<lparr>other_columns = [(''Case ID'', [''G1'', ''G2''])],
      Date_of_Last_Known_Alive = ObjectCol [Some ''06/15/2020'', Some ''02/30/2020''],
      CT_Date = ObjectCol [Some ''01/01/2020'', Some ''01/01/2020''],
      Days_between_CT_and_surgery = [Some 10, None],
      Survival_Status = [Some ''Death'', Some ''Alive''],
      time = None, event = None\<rparr>"

definition far_early_row :: frame where
  "far_early_row =
     \<lparr>other_columns = [(''Case ID'', [''H1''])],
      Date_of_Last_Known_Alive = ObjectCol [Some ''01/01/1900''],
      CT_Date = ObjectCol [Some ''04/11/2192''],
      Days_between_CT_and_surgery = [Some 0],
      Survival_Status = [Some ''Alive''],
      time = None, event = None\<rparr>"

definition empty_frame :: frame where
  "empty_frame =
     \<lparr>other_columns = [(''Case ID'', [])],
      Date_of_Last_Known_Alive = ObjectCol [],
      CT_Date = ObjectCol [],
      Days_between_CT_and_surgery = [],
      Survival_Status = [],
      time = None, event = None\<rparr>"

section \<open>Properties\<close>

subsection \<open>What a run of the cell computes\<close>

text \<open>
  A run of the cell in any state that binds \<^verbatim>\<open>clinical\<close>: the copy is allocated at
  the end of the heap and takes every assignment; the first statement that raises
  stops the run.
\<close>

lemma run_cell_char:
  assumes "clinical s = Some a"
  shows "run_cell s =
     (let f = heap s ! a; s1 = s\<lparr>heap := heap s @ [f], clinical_data := Some (length (heap s))\<rparr> in
      case to_datetime (Date_of_Last_Known_Alive f) of
        Inl e \<Rightarrow> (Some e, s1)
      | Inr xs \<Rightarrow>
          (case to_datetime (CT_Date f) of
             Inl e \<Rightarrow> (Some e, s1\<lparr>heap := heap s @ [f\<lparr>Date_of_Last_Known_Alive := DatetimeCol xs\<rparr>]\<rparr>)
           | Inr ys \<Rightarrow>
               (case sub_datetime xs ys of
                  Inl e \<Rightarrow>
                    (Some e, s1\<lparr>heap := heap s @
                       [f\<lparr>Date_of_Last_Known_Alive := DatetimeCol xs, CT_Date := DatetimeCol ys\<rparr>]\<rparr>)
                | Inr ts \<Rightarrow>
                    (if Survival_Status f = []
                     then (Some ValueError, s1\<lparr>heap := heap s @ [built f xs ys ts]\<rparr>)
                     else (None, s1\<lparr>heap := heap s @ [built f xs ys ts],
                         survival_data := Some (zip (map classify_event (Survival_Status f))
                            (time_column ts (Days_between_CT_and_surgery f)))\<rparr>)))))"
  using assms
  by (simp add: run_cell_def stmt_copy_def stmt_last_alive_def stmt_ct_date_def stmt_time_def
      stmt_event_def stmt_surv_def setitem_def Let_def built_def time_column_def
      split: sum.splits)

lemma build_char:
  "build f =
     (case to_datetime (Date_of_Last_Known_Alive f) of
        Inl e \<Rightarrow> Inl e
      | Inr xs \<Rightarrow>
          (case to_datetime (CT_Date f) of
             Inl e \<Rightarrow> Inl e
           | Inr ys \<Rightarrow>
               (case sub_datetime xs ys of
                  Inl e \<Rightarrow> Inl e
                | Inr ts \<Rightarrow>
                    (if Survival_Status f = [] then Inl ValueError
                     else Inr (built f xs ys ts,
                            zip (map classify_event (Survival_Status f))
                                (time_column ts (Days_between_CT_and_surgery f)))))))"
  by (simp add: build_def outcome_def fresh_def run_cell_char Let_def split: sum.splits)

lemma outcome_run_cell:
  assumes "clinical s = Some a"
  shows "outcome (run_cell s) = build (heap s ! a)"
  using assms
  by (simp add: build_char outcome_def run_cell_char Let_def split: sum.splits)

lemma run_cell_heap:
  assumes "clinical s = Some a"
  shows "take (length (heap s)) (heap (snd (run_cell s))) = heap s \<and>
         clinical (snd (run_cell s)) = Some a \<and>
         clinical_data (snd (run_cell s)) = Some (length (heap s))"
  using assms by (simp add: run_cell_char Let_def split: sum.splits)

text \<open>Parsing a column: every cell parses, or the first malformed one raises.\<close>

lemma strptime_error: "strptime s = Inl e \<Longrightarrow> e = ValueError"
  by (auto simp: strptime_def split: option.splits prod.splits if_splits)

lemma strptime_nat_strings: "strptime s = Inr d \<Longrightarrow> s \<noteq> [] \<and> s \<notin> set nat_strings"
proof -
  have "\<forall>t \<in> set ([] # nat_strings). \<exists>e. strptime t = Inl e"
    by (simp add: nat_strings_def strptime_def split_slash_def)
  then show "strptime s = Inr d \<Longrightarrow> s \<noteq> [] \<and> s \<notin> set nat_strings"
    by fastforce
qed

lemma to_datetime_cell_parsed:
  "strptime s = Inr d \<Longrightarrow> to_datetime_cell (Some s) = Inr (Some d)"
  using strptime_nat_strings [of s d] by (simp add: to_datetime_cell_def)

lemma to_datetime_cell_error: "to_datetime_cell x = Inl e \<Longrightarrow> e = ValueError"
  by (auto simp: to_datetime_cell_def dest: strptime_error split: option.splits if_splits sum.splits)

lemma not_malformed_cell: "\<not> malformed x \<Longrightarrow> to_datetime_cell x = Inr (parsed_cell x)"
  by (simp add: malformed_def parsed_cell_def split: sum.splits)

lemma malformed_cell: "malformed x \<Longrightarrow> to_datetime_cell x = Inl ValueError"
  by (auto simp: malformed_def dest: to_datetime_cell_error split: sum.splits)

lemma array_strptime_parsed:
  "list_all (\<lambda>x. \<not> malformed x) xs \<Longrightarrow> array_strptime xs = Inr (parsed_column xs)"
  by (induction xs) (simp_all add: parsed_column_def not_malformed_cell)

lemma array_strptime_fails:
  "\<not> list_all (\<lambda>x. \<not> malformed x) xs \<Longrightarrow> array_strptime xs = Inl ValueError"
proof (induction xs)
  case Nil
  then show ?case by simp
next
  case (Cons x xs)
  show ?case
  proof (cases "malformed x")
    case True
    then show ?thesis by (simp add: malformed_cell)
  next
    case False
    with Cons show ?thesis by (simp add: not_malformed_cell)
  qed
qed

text \<open>The difference of two parsed columns: it overflows on the rows that are too far apart.\<close>

lemma int64_fits_days:
  "int64_fits (d * NS_PER_DAY) \<longleftrightarrow> - 106751 \<le> d \<and> d \<le> 106751"
  by (simp add: int64_fits_def NS_PER_DAY_def) arith

lemma gap_overflows_days:
  assumes "parsed_cell la = Some a" and "parsed_cell ct = Some b"
  shows "gap_overflows (la, ct) \<longleftrightarrow>
           \<not> (- 106751 \<le> toordinal a - toordinal b \<and> toordinal a - toordinal b \<le> 106751)"
  using assms by (simp add: gap_overflows_def delta_fits_def delta_ns_def int64_fits_days)

lemma deltas_parsed:
  "map2 delta_ns (parsed_column las) (parsed_column cts) =
     map (\<lambda>p. delta_ns (parsed_cell (fst p)) (parsed_cell (snd p))) (zip las cts)"
  by (simp add: parsed_column_def zip_map_map split_def)

lemma sub_datetime_parsed:
  "sub_datetime (parsed_column las) (parsed_column cts) =
     (if list_all (\<lambda>p. \<not> gap_overflows p) (zip las cts)
      then Inr (map (\<lambda>p. map_option Timedelta
                          (delta_ns (parsed_cell (fst p)) (parsed_cell (snd p)))) (zip las cts))
      else Inl OverflowError)"
  by (simp add: sub_datetime_def deltas_parsed Let_def list_all_iff gap_overflows_def o_def)

text \<open>The columns of a table that the cell runs through, row by row.\<close>

lemma ns_days: "(d * NS_PER_DAY) div NS_PER_DAY = d"
  by (simp add: NS_PER_DAY_def)

lemma survival_record_row:
  assumes "\<not> malformed la" and "\<not> malformed ct"
  shows "survival_record la ct off st =
     (classify_event st,
      case map_option Timedelta (delta_ns (parsed_cell la) (parsed_cell ct)) of
        None \<Rightarrow> None
      | Some t \<Rightarrow> (case off of None \<Rightarrow> None | Some n \<Rightarrow> Some (ns t div NS_PER_DAY - n)))"
  using assms
  by (simp add: survival_record_def not_malformed_cell delta_ns_def ns_days
      split: option.splits)

lemma time_column_length:
  "length offs = length ts \<Longrightarrow> length (time_column ts offs) = length ts"
  by (simp add: time_column_def sub_series_def dt_days_def)

lemma time_column_nth:
  assumes "i < length ts" and "length offs = length ts"
  shows "time_column ts offs ! i =
     (case ts ! i of
        None \<Rightarrow> None
      | Some t \<Rightarrow> (case offs ! i of None \<Rightarrow> None | Some n \<Rightarrow> Some (ns t div NS_PER_DAY - n)))"
  using assms
  by (simp add: time_column_def sub_series_def dt_days_def split: option.splits)

lemma built_fields:
  "other_columns (built f xs ys ts) = other_columns f"
  "Survival_Status (built f xs ys ts) = Survival_Status f"
  "Days_between_CT_and_surgery (built f xs ys ts) = Days_between_CT_and_surgery f"
  "time (built f xs ys ts) = Some (time_column ts (Days_between_CT_and_surgery f))"
  "event (built f xs ys ts) = Some (map classify_event (Survival_Status f))"
  "Date_of_Last_Known_Alive (built f xs ys ts) = DatetimeCol xs"
  "CT_Date (built f xs ys ts) = DatetimeCol ys"
  "nrows (built f xs ys ts) = nrows f"
  by (simp_all add: built_def nrows_def)

lemma build_stops:
  assumes "clinical_table f las cts" and "\<not> runs_through las cts"
  shows "build f =
           Inl (if \<not> list_all (\<lambda>x. \<not> malformed x) (las @ cts) then ValueError
                else if \<not> list_all (\<lambda>p. \<not> gap_overflows p) (zip las cts) then OverflowError
                else ValueError)"
proof -
  from assms(1) have cols: "Date_of_Last_Known_Alive f = ObjectCol las" "CT_Date f = ObjectCol cts"
    and len: "length las = nrows f"
    by (simp_all add: clinical_table_def)
  show ?thesis
  proof (cases "list_all (\<lambda>x. \<not> malformed x) las")
    case False
    then show ?thesis
      by (simp add: build_char cols to_datetime_def array_strptime_fails)
  next
    case la: True
    show ?thesis
    proof (cases "list_all (\<lambda>x. \<not> malformed x) cts")
      case False
      with la show ?thesis
        by (simp add: build_char cols to_datetime_def array_strptime_fails array_strptime_parsed)
    next
      case ct: True
      show ?thesis
      proof (cases "list_all (\<lambda>p. \<not> gap_overflows p) (zip las cts)")
        case False
        with la ct show ?thesis
          by (simp add: build_char cols to_datetime_def array_strptime_parsed
              sub_datetime_parsed)
      next
        case True
        with la ct assms(2) have "las = []" by (simp add: runs_through_def)
        with len have "Survival_Status f = []" by (simp add: nrows_def)
        with la ct True show ?thesis
          by (simp add: build_char cols to_datetime_def array_strptime_parsed
              sub_datetime_parsed)
      qed
    qed
  qed
qed

lemma build_rows:
  assumes "clinical_table f las cts" and "runs_through las cts"
  shows "\<exists>g sv. build f = Inr (g, sv) \<and> length sv = nrows f \<and> nrows g = nrows f \<and>
           other_columns g = other_columns f \<and>
           Survival_Status g = Survival_Status f \<and>
           Days_between_CT_and_surgery g = Days_between_CT_and_surgery f \<and>
           time g = Some (map snd sv) \<and> event g = Some (map fst sv) \<and>
           map fst sv = map classify_event (Survival_Status f) \<and>
           g = f\<lparr>Date_of_Last_Known_Alive := DatetimeCol (parsed_column las),
                 CT_Date := DatetimeCol (parsed_column cts),
                 time := Some (map snd sv), event := Some (map fst sv)\<rparr> \<and>
           (\<forall>i<nrows f. sv ! i =
              survival_record (las ! i) (cts ! i) (Days_between_CT_and_surgery f ! i)
                (Survival_Status f ! i))"
proof -
  from assms(1) have cols: "Date_of_Last_Known_Alive f = ObjectCol las" "CT_Date f = ObjectCol cts"
    and len: "length las = nrows f" "length cts = nrows f"
      "length (Days_between_CT_and_surgery f) = nrows f"
    by (simp_all add: clinical_table_def)
  from assms(2) have ok: "list_all (\<lambda>x. \<not> malformed x) las" "list_all (\<lambda>x. \<not> malformed x) cts"
    "list_all (\<lambda>p. \<not> gap_overflows p) (zip las cts)" and ne: "las \<noteq> []"
    by (simp_all add: runs_through_def)
  let ?xs = "parsed_column las" and ?ys = "parsed_column cts"
  let ?ts = "map (\<lambda>p. map_option Timedelta
                 (delta_ns (parsed_cell (fst p)) (parsed_cell (snd p)))) (zip las cts)"
  let ?ev = "map classify_event (Survival_Status f)"
  let ?tm = "time_column ?ts (Days_between_CT_and_surgery f)"
  from ne len have ne': "Survival_Status f \<noteq> []" by (auto simp: nrows_def)
  have b: "build f = Inr (built f ?xs ?ys ?ts, zip ?ev ?tm)"
    using ok ne' by (simp add: build_char cols to_datetime_def array_strptime_parsed
        sub_datetime_parsed)
  have lts: "length ?ts = nrows f" using len by simp
  have lt: "length ?tm = nrows f" using lts len by (simp add: time_column_length)
  have le: "length ?ev = nrows f" by (simp add: nrows_def)
  have rows: "\<forall>i<nrows f. zip ?ev ?tm ! i =
      survival_record (las ! i) (cts ! i) (Days_between_CT_and_surgery f ! i)
        (Survival_Status f ! i)"
  proof (intro allI impI)
    fix i assume i: "i < nrows f"
    with len have "las ! i \<in> set las" "cts ! i \<in> set cts" by simp_all
    with ok have nm: "\<not> malformed (las ! i)" "\<not> malformed (cts ! i)"
      by (simp_all add: list_all_iff)
    have "?tm ! i = snd (survival_record (las ! i) (cts ! i)
            (Days_between_CT_and_surgery f ! i) (Survival_Status f ! i))"
      using i len lts by (simp add: time_column_nth survival_record_row [OF nm])
    moreover have "?ev ! i = fst (survival_record (las ! i) (cts ! i)
            (Days_between_CT_and_surgery f ! i) (Survival_Status f ! i))"
      using i by (simp add: survival_record_def nrows_def)
    ultimately show "zip ?ev ?tm ! i =
      survival_record (las ! i) (cts ! i) (Days_between_CT_and_surgery f ! i)
        (Survival_Status f ! i)"
      using i lt le by (simp add: prod_eq_iff)
  qed
  have proj: "map snd (zip ?ev ?tm) = ?tm" "map fst (zip ?ev ?tm) = ?ev"
    using lt le by simp_all
  define g where "g = built f ?xs ?ys ?ts"
  define sv where "sv = zip ?ev ?tm"
  have c1: "build f = Inr (g, sv)" using b by (simp add: g_def sv_def)
  have c2: "length sv = nrows f" using lt le by (simp add: sv_def)
  have c3: "nrows g = nrows f" "other_columns g = other_columns f"
    "Survival_Status g = Survival_Status f"
    "Days_between_CT_and_surgery g = Days_between_CT_and_surgery f"
    by (simp_all add: g_def built_fields)
  have c4: "time g = Some (map snd sv)" "event g = Some (map fst sv)"
    unfolding sv_def proj by (simp_all add: g_def built_fields)
  have c5: "map fst sv = map classify_event (Survival_Status f)"
    unfolding sv_def proj ..
  have c6: "g = f\<lparr>Date_of_Last_Known_Alive := DatetimeCol (parsed_column las),
                 CT_Date := DatetimeCol (parsed_column cts),
                 time := Some (map snd sv), event := Some (map fst sv)\<rparr>"
    unfolding sv_def proj by (simp add: g_def built_def)
  have c7: "\<forall>i<nrows f. sv ! i =
              survival_record (las ! i) (cts ! i) (Days_between_CT_and_surgery f ! i)
                (Survival_Status f ! i)"
    using rows by (simp add: sv_def)
  from c1 c2 c3 c4 c5 c6 c7 show ?thesis by blast
qed

lemma build_succeeds_iff:
  assumes "clinical_table f las cts"
  shows "(\<exists>g sv. build f = Inr (g, sv)) \<longleftrightarrow> runs_through las cts"
proof
  assume "\<exists>g sv. build f = Inr (g, sv)"
  then show "runs_through las cts"
    using build_stops [OF assms] by (cases "runs_through las cts") auto
next
  assume "runs_through las cts"
  from build_rows [OF assms this] show "\<exists>g sv. build f = Inr (g, sv)" by blast
qed

lemma survival_record_parsed:
  assumes "strptime s1 = Inr d1" and "strptime s0 = Inr d0"
  shows "survival_record (Some s1) (Some s0) (Some n) st =
           (classify_event st, Some (toordinal d1 - toordinal d0 - n))"
  using assms by (simp add: survival_record_def to_datetime_cell_parsed)

lemma survival_record_no_offset:
  "survival_record la ct None st = (classify_event st, None)"
  by (simp add: survival_record_def split: sum.splits option.splits)

lemma survival_record_no_date:
  "la = None \<or> ct = None \<Longrightarrow> survival_record la ct off st = (classify_event st, None)"
  by (auto simp: survival_record_def to_datetime_cell_def split: sum.splits option.splits)

subsection \<open>The time column\<close>

text \<open>
  Claim C1, as amended. For every clinical record whose two date strings parse under
  the format MM/DD/YYYY and whose offset is an integer (of at most 52 bits), in a table
  that the cell runs through (no date string of any row is refused and no row has its
  two dates more than 106751 days apart), the cell computes the time exactly as the
  number of days from the CT date to the date last known alive, minus the offset: the
  integer itself, neither rounded nor clamped.
\<close>

theorem time_exact:
  assumes "clinical_table f las cts" and "runs_through las cts"
    and "i < nrows f"
    and "las ! i = Some s1" and "strptime s1 = Inr d1"
    and "cts ! i = Some s0" and "strptime s0 = Inr d0"
    and "Days_between_CT_and_surgery f ! i = Some n"
  shows "\<exists>g sv tm. build f = Inr (g, sv) \<and> time g = Some tm \<and>
           tm ! i = Some (toordinal d1 - toordinal d0 - n) \<and>
           snd (sv ! i) = Some (toordinal d1 - toordinal d0 - n)"
proof -
  from build_rows [OF assms(1,2)] obtain g sv where b:
    "build f = Inr (g, sv)" "length sv = nrows f" "time g = Some (map snd sv)"
    "\<forall>i<nrows f. sv ! i =
       survival_record (las ! i) (cts ! i) (Days_between_CT_and_surgery f ! i)
         (Survival_Status f ! i)"
    by blast
  from b(4) assms(3) have "sv ! i =
       survival_record (las ! i) (cts ! i) (Days_between_CT_and_surgery f ! i)
         (Survival_Status f ! i)"
    by blast
  then have r: "snd (sv ! i) = Some (toordinal d1 - toordinal d0 - n)"
    using assms(4-8) by (simp add: survival_record_parsed)
  moreover have "map snd sv ! i = snd (sv ! i)"
    using assms(3) b(2) by simp
  ultimately show ?thesis using b(1,3) by simp
qed

theorem time_exact_witness:
  "\<exists>g sv tm. build mixed_rows = Inr (g, sv) \<and> time g = Some tm \<and>
     tm ! 0 = Some 156 \<and> snd (sv ! 0) = Some 156"
proof -
  have h1: "clinical_table mixed_rows mixed_las mixed_cts" by code_simp
  have h2: "runs_through mixed_las mixed_cts" by code_simp
  have h4: "0 < nrows mixed_rows" by code_simp
  have h5: "mixed_las ! 0 = Some ''06/15/2020''" by code_simp
  have h6: "strptime ''06/15/2020'' = Inr (Date 2020 6 15)" by code_simp
  have h7: "mixed_cts ! 0 = Some ''01/01/2020''" by code_simp
  have h8: "strptime ''01/01/2020'' = Inr (Date 2020 1 1)" by code_simp
  have h9: "Days_between_CT_and_surgery mixed_rows ! 0 = Some 10" by code_simp
  have e: "toordinal (Date 2020 6 15) - toordinal (Date 2020 1 1) - 10 = 156" by code_simp
  from time_exact [OF h1 h2 h4 h5 h6 h7 h8 h9] show ?thesis unfolding e .
qed

text \<open>
  The claim as stated leaves the table out. A record whose dates parse, 106752 days
  apart, with offset 0, makes the subtraction of the date columns overflow: the cell
  raises and computes no time. A record with parsing dates and offset 10 that stands
  beside a record whose date is no calendar day gets no time either: the cell raises on
  the other record's date.
\<close>

theorem time_not_computed:
  "strptime ''01/01/1900'' = Inr (Date 1900 1 1) \<and>
   strptime ''04/11/2192'' = Inr (Date 2192 4 11) \<and>
   Days_between_CT_and_surgery far_early_row = [Some 0] \<and>
   build far_early_row = Inl OverflowError \<and>
   strptime ''06/15/2020'' = Inr (Date 2020 6 15) \<and>
   strptime ''01/01/2020'' = Inr (Date 2020 1 1) \<and>
   Days_between_CT_and_surgery refused_rows ! 0 = Some 10 \<and>
   build refused_rows = Inl ValueError"
  by code_simp

subsection \<open>The event column\<close>

text \<open>
  Claim C2. The event classification is a total function on status labels: it is true
  exactly for the label \<^verbatim>\<open>Death\<close>, compared as it is written, and false for every
  other value, among them \<^verbatim>\<open>Alive\<close>, the empty string, \<^verbatim>\<open>DECEASED\<close>, the label in
  lower case and a missing value.
\<close>

theorem classify_event_total:
  "(classify_event x \<longleftrightarrow> x = Some ''Death'') \<and>
   classify_event (Some ''Death'') \<and>
   \<not> classify_event (Some ''Alive'') \<and>
   \<not> classify_event (Some '''') \<and>
   \<not> classify_event (Some ''DECEASED'') \<and>
   \<not> classify_event (Some ''death'') \<and>
   \<not> classify_event None"
  by (simp add: classify_event_def)

subsection \<open>Malformed and missing dates\<close>

text \<open>
  Claim C3, as amended. The claim has a row with an unparseable or missing date left out
  of the output and reported, while the other rows are built. The cell has no such
  path. When a row holds a date string that \<^verbatim>\<open>to_datetime\<close> refuses, the whole
  build raises a \<^verbatim>\<open>ValueError\<close> and nothing is built for any row. A missing date is
  no error: in a table of clinical records (offsets of at most 52 bits) that the cell
  runs through (no date string refused, no row with its two dates more than 106751 days
  apart), a row with a missing date is kept, one record per row being built, and its
  record has an undefined time (NaN).
\<close>

theorem malformed_date_aborts:
  assumes "clinical_table f las cts" and "i < nrows f"
  shows "(malformed (las ! i) \<or> malformed (cts ! i) \<longrightarrow> build f = Inl ValueError) \<and>
         (runs_through las cts \<and> (las ! i = None \<or> cts ! i = None) \<longrightarrow>
            (\<exists>g sv. build f = Inr (g, sv) \<and> length sv = nrows f \<and>
                 snd (sv ! i) = None))"
proof (intro conjI impI)
  assume bad: "malformed (las ! i) \<or> malformed (cts ! i)"
  from assms have len: "i < length las" "i < length cts"
    by (simp_all add: clinical_table_def)
  then have "las ! i \<in> set las" "cts ! i \<in> set cts" by simp_all
  with bad have m: "\<not> list_all (\<lambda>x. \<not> malformed x) (las @ cts)"
    by (auto simp: list_all_iff)
  then have "\<not> runs_through las cts" unfolding runs_through_def by blast
  from build_stops [OF assms(1) this] show "build f = Inl ValueError"
    by (simp only: m not_False_eq_True if_True)
next
  assume a: "runs_through las cts \<and> (las ! i = None \<or> cts ! i = None)"
  from build_rows [OF assms(1)] a obtain g sv where b:
    "build f = Inr (g, sv)" "length sv = nrows f"
    "\<forall>i<nrows f. sv ! i =
       survival_record (las ! i) (cts ! i) (Days_between_CT_and_surgery f ! i)
         (Survival_Status f ! i)"
    by blast
  from b(3) assms(2) have "sv ! i =
       survival_record (las ! i) (cts ! i) (Days_between_CT_and_surgery f ! i)
         (Survival_Status f ! i)"
    by blast
  with a have "snd (sv ! i) = None" by (simp add: survival_record_no_date)
  with b(1,2) show "\<exists>g sv. build f = Inr (g, sv) \<and> length sv = nrows f \<and> snd (sv ! i) = None"
    by blast
qed

theorem malformed_date_aborts_witness:
  "build six_rows = Inl ValueError \<and>
   (\<exists>g sv. build mixed_rows = Inr (g, sv) \<and> length sv = nrows mixed_rows \<and>
        snd (sv ! 2) = None)"
proof -
  have t1: "clinical_table six_rows six_las six_cts" and i1: "3 < nrows six_rows"
    and m1: "malformed (six_las ! 3)"
    by code_simp+
  have t2: "clinical_table mixed_rows mixed_las mixed_cts" and i2: "2 < nrows mixed_rows"
    and m2: "runs_through mixed_las mixed_cts" and n2: "mixed_las ! 2 = None"
    by code_simp+
  from malformed_date_aborts [OF t1 i1] m1
  have a: "build six_rows = Inl ValueError"
    by blast
  from malformed_date_aborts [OF t2 i2] m2 n2
  have "\<exists>g sv. build mixed_rows = Inr (g, sv) \<and> length sv = nrows mixed_rows \<and>
        snd (sv ! 2) = None"
    by blast
  with a show ?thesis by blast
qed

text \<open>
  The claim as stated fails on a table of five well-formed records and one record whose
  date is written year first: the build aborts on that string and yields no record.
\<close>

theorem six_rows_abort:
  "build six_rows = Inl ValueError"
  by code_simp

subsection \<open>One survival record per clinical record\<close>

text \<open>
  Claim C4, as amended. For every table of \<open>N\<close> clinical records (offsets of at most
  52 bits) that the cell runs through (at least one record, no date string refused, no
  row with its two dates more than 106751 days apart), the build returns exactly \<open>N\<close>
  survival records, the record
  at each position being the one of the input row at that position; the columns the
  cell does not assign, the subject identifier among them, are unchanged, so that the
  output joins back to the input row for row. On every other table the build raises and
  returns no record.
\<close>

theorem one_record_per_row:
  assumes "clinical_table f las cts"
  shows "(runs_through las cts \<longrightarrow>
            (\<exists>g sv. build f = Inr (g, sv) \<and> length sv = nrows f \<and> nrows g = nrows f \<and>
               other_columns g = other_columns f \<and>
               Survival_Status g = Survival_Status f \<and>
               Days_between_CT_and_surgery g = Days_between_CT_and_surgery f \<and>
               time g = Some (map snd sv) \<and> event g = Some (map fst sv) \<and>
               (\<forall>i<nrows f. sv ! i =
                  survival_record (las ! i) (cts ! i) (Days_between_CT_and_surgery f ! i)
                    (Survival_Status f ! i)))) \<and>
         (\<not> runs_through las cts \<longrightarrow> (\<exists>e. build f = Inl e))"
proof (intro conjI impI)
  assume "runs_through las cts"
  from build_rows [OF assms this]
  show "\<exists>g sv. build f = Inr (g, sv) \<and> length sv = nrows f \<and> nrows g = nrows f \<and>
               other_columns g = other_columns f \<and>
               Survival_Status g = Survival_Status f \<and>
               Days_between_CT_and_surgery g = Days_between_CT_and_surgery f \<and>
               time g = Some (map snd sv) \<and> event g = Some (map fst sv) \<and>
               (\<forall>i<nrows f. sv ! i =
                  survival_record (las ! i) (cts ! i) (Days_between_CT_and_surgery f ! i)
                    (Survival_Status f ! i))"
    by blast
next
  assume "\<not> runs_through las cts"
  from build_stops [OF assms this] show "\<exists>e. build f = Inl e" by blast
qed

theorem one_record_per_row_witness:
  "(\<exists>g sv. build mixed_rows = Inr (g, sv) \<and> length sv = 4 \<and> nrows g = 4 \<and>
      other_columns g = [(''Case ID'', [''M1'', ''M2'', ''M3'', ''M4''])] \<and>
      sv ! 0 = (True, Some 156) \<and> sv ! 3 = (False, Some (- 5))) \<and>
   (\<exists>e. build six_rows = Inl e)"
proof -
  have t: "clinical_table mixed_rows mixed_las mixed_cts"
    and m: "runs_through mixed_las mixed_cts"
    by code_simp+
  have t6: "clinical_table six_rows six_las six_cts"
    and m6: "\<not> runs_through six_las six_cts"
    by code_simp+
  have n: "nrows mixed_rows = 4" by code_simp
  have o: "other_columns mixed_rows = [(''Case ID'', [''M1'', ''M2'', ''M3'', ''M4''])]"
    by code_simp
  have r0: "survival_record (mixed_las ! 0) (mixed_cts ! 0)
      (Days_between_CT_and_surgery mixed_rows ! 0) (Survival_Status mixed_rows ! 0) =
      (True, Some 156)"
    by code_simp
  have r3: "survival_record (mixed_las ! 3) (mixed_cts ! 3)
      (Days_between_CT_and_surgery mixed_rows ! 3) (Survival_Status mixed_rows ! 3) =
      (False, Some (- 5))"
    by code_simp
  from one_record_per_row [OF t] m obtain g sv where b:
    "build mixed_rows = Inr (g, sv)" "length sv = nrows mixed_rows"
    "nrows g = nrows mixed_rows" "other_columns g = other_columns mixed_rows"
    "\<forall>i<nrows mixed_rows. sv ! i =
        survival_record (mixed_las ! i) (mixed_cts ! i)
          (Days_between_CT_and_surgery mixed_rows ! i) (Survival_Status mixed_rows ! i)"
    by blast
  from b(5) n have "sv ! 0 = (True, Some 156)" "sv ! 3 = (False, Some (- 5))"
    using r0 r3 by simp_all
  with b(1-4) n o have "\<exists>g sv. build mixed_rows = Inr (g, sv) \<and> length sv = 4 \<and> nrows g = 4 \<and>
      other_columns g = [(''Case ID'', [''M1'', ''M2'', ''M3'', ''M4''])] \<and>
      sv ! 0 = (True, Some 156) \<and> sv ! 3 = (False, Some (- 5))"
    by simp
  moreover from one_record_per_row [OF t6] m6 have "\<exists>e. build six_rows = Inl e"
    by blast
  ultimately show ?thesis by blast
qed

text \<open>
  The claim as stated fails on tables of well-formed records too: two records of which
  one has its dates 106752 days apart give no record but an \<^verbatim>\<open>OverflowError\<close>, two
  records of which one has a date that is no calendar day give a \<^verbatim>\<open>ValueError\<close>,
  and the table without records gives a \<^verbatim>\<open>ValueError\<close>, not an empty output.
\<close>

theorem no_record_returned:
  "nrows far_rows = 2 \<and> build far_rows = Inl OverflowError \<and>
   nrows refused_rows = 2 \<and> build refused_rows = Inl ValueError \<and>
   nrows empty_frame = 0 \<and> build empty_frame = Inl ValueError"
  by code_simp

subsection \<open>Negative durations\<close>

text \<open>
  Claim C5, as amended. In a table of clinical records (offsets of at most 52 bits)
  that the cell runs through (no date string refused, no row with its two dates more
  than 106751 days apart), a row whose computed duration
  is negative is kept in the output with its negative time as computed, neither dropped
  nor clamped to zero. No diagnostic is attached to it: the output frame is the input
  frame with the two date columns parsed, the time column and the event column of the
  status labels, and nothing else.
\<close>

theorem negative_time_kept:
  assumes "clinical_table f las cts" and "runs_through las cts"
    and "i < nrows f"
    and "las ! i = Some s1" and "strptime s1 = Inr d1"
    and "cts ! i = Some s0" and "strptime s0 = Inr d0"
    and "Days_between_CT_and_surgery f ! i = Some n"
    and "toordinal d1 - toordinal d0 - n < 0"
  shows "\<exists>g sv. build f = Inr (g, sv) \<and> length sv = nrows f \<and> nrows g = nrows f \<and>
           sv ! i = (classify_event (Survival_Status f ! i),
                     Some (toordinal d1 - toordinal d0 - n)) \<and>
           g = f\<lparr>Date_of_Last_Known_Alive := DatetimeCol (parsed_column las),
                 CT_Date := DatetimeCol (parsed_column cts),
                 time := Some (map snd sv),
                 event := Some (map classify_event (Survival_Status f))\<rparr>"
proof -
  from build_rows [OF assms(1,2)] obtain g sv where b:
    "build f = Inr (g, sv)" "length sv = nrows f" "nrows g = nrows f"
    "map fst sv = map classify_event (Survival_Status f)"
    "g = f\<lparr>Date_of_Last_Known_Alive := DatetimeCol (parsed_column las),
                 CT_Date := DatetimeCol (parsed_column cts),
                 time := Some (map snd sv), event := Some (map fst sv)\<rparr>"
    "\<forall>i<nrows f. sv ! i =
       survival_record (las ! i) (cts ! i) (Days_between_CT_and_surgery f ! i)
         (Survival_Status f ! i)"
    by blast
  from b(6) assms(3) have "sv ! i =
       survival_record (las ! i) (cts ! i) (Days_between_CT_and_surgery f ! i)
         (Survival_Status f ! i)"
    by blast
  then have r: "sv ! i = (classify_event (Survival_Status f ! i),
                     Some (toordinal d1 - toordinal d0 - n))"
    using assms(4-8) by (simp add: survival_record_parsed)
  from b(4,5) have "g = f\<lparr>Date_of_Last_Known_Alive := DatetimeCol (parsed_column las),
                 CT_Date := DatetimeCol (parsed_column cts),
                 time := Some (map snd sv),
                 event := Some (map classify_event (Survival_Status f))\<rparr>"
    by simp
  with b(1,2,3) r show ?thesis by blast
qed

theorem negative_time_kept_witness:
  "\<exists>g sv. build mixed_rows = Inr (g, sv) \<and> length sv = nrows mixed_rows \<and>
     nrows g = nrows mixed_rows \<and> sv ! 3 = (False, Some (- 5)) \<and>
     g = mixed_rows\<lparr>Date_of_Last_Known_Alive :=
                       DatetimeCol [Some (Date 2020 6 15), Some (Date 2021 3 1), None,
                                    Some (Date 2020 1 1)],
                     CT_Date :=
                       DatetimeCol [Some (Date 2020 1 1), Some (Date 2021 2 1),
                                    Some (Date 2019 11 30), Some (Date 2020 1 6)],
                     time := Some (map snd sv),
                     event := Some [True, True, False, False]\<rparr>"
proof -
  have h1: "clinical_table mixed_rows mixed_las mixed_cts" by code_simp
  have h2: "runs_through mixed_las mixed_cts" by code_simp
  have h4: "3 < nrows mixed_rows" by code_simp
  have h5: "mixed_las ! 3 = Some ''01/01/2020''" by code_simp
  have h6: "strptime ''01/01/2020'' = Inr (Date 2020 1 1)" by code_simp
  have h7: "mixed_cts ! 3 = Some ''01/06/2020''" by code_simp
  have h8: "strptime ''01/06/2020'' = Inr (Date 2020 1 6)" by code_simp
  have h9: "Days_between_CT_and_surgery mixed_rows ! 3 = Some 0" by code_simp
  have e: "toordinal (Date 2020 1 1) - toordinal (Date 2020 1 6) - 0 = - 5" by code_simp
  have h10: "toordinal (Date 2020 1 1) - toordinal (Date 2020 1 6) - 0 < 0"
    unfolding e by simp
  have c: "classify_event (Survival_Status mixed_rows ! 3) = False" by code_simp
  have ev: "map classify_event (Survival_Status mixed_rows) = [True, True, False, False]"
    by code_simp
  have pl: "parsed_column mixed_las =
      [Some (Date 2020 6 15), Some (Date 2021 3 1), None, Some (Date 2020 1 1)]"
    by code_simp
  have pc: "parsed_column mixed_cts =
      [Some (Date 2020 1 1), Some (Date 2021 2 1), Some (Date 2019 11 30),
       Some (Date 2020 1 6)]"
    by code_simp
  from negative_time_kept [OF h1 h2 h4 h5 h6 h7 h8 h9 h10] show ?thesis
    unfolding e c ev pl pc .
qed

text \<open>
  The claim as stated asks for a flag on such a row. For a record whose CT date is five
  days after the date last known alive, the build returns the input frame with the four
  assigned columns and the time -5: no column or value marks the row. And a record whose
  date last known alive is 106752 days before its CT date is not kept at all: the
  subtraction of the date columns overflows and the cell raises.
\<close>

theorem early_row_unflagged:
  "build early_row =
     Inr (early_row\<lparr>Date_of_Last_Known_Alive := DatetimeCol [Some (Date 2020 1 1)],
                    CT_Date := DatetimeCol [Some (Date 2020 1 6)],
                    time := Some [Some (- 5)], event := Some [False]\<rparr>,
          [(False, Some (- 5))]) \<and>
   build far_early_row = Inl OverflowError"
  by code_simp

text \<open>
  Claim C6, as amended. In the output table of a build that succeeded, on a table of
  clinical records with offsets of at most 52 bits, the time of a row
  whose dates and offset are present is an integer number of days that is non-negative
  exactly when the date last known alive is at least the offset after the CT date, and
  negative otherwise: the cell does not keep the time column non-negative.
\<close>

theorem time_sign:
  assumes "clinical_table f las cts" and "build f = Inr (g, sv)"
    and "i < nrows f"
    and "las ! i = Some s1" and "strptime s1 = Inr d1"
    and "cts ! i = Some s0" and "strptime s0 = Inr d0"
    and "Days_between_CT_and_surgery f ! i = Some n"
  shows "\<exists>t. time g = Some (map snd sv) \<and> i < length sv \<and> snd (sv ! i) = Some t \<and>
           t = toordinal d1 - toordinal d0 - n \<and>
           (0 \<le> t \<longleftrightarrow> toordinal d0 + n \<le> toordinal d1) \<and>
           (t < 0 \<longleftrightarrow> toordinal d1 < toordinal d0 + n)"
proof -
  from assms(2) have "runs_through las cts"
    using build_succeeds_iff [OF assms(1)] by blast
  from build_rows [OF assms(1) this] assms(2) have b:
    "length sv = nrows f" "time g = Some (map snd sv)"
    "\<forall>i<nrows f. sv ! i =
       survival_record (las ! i) (cts ! i) (Days_between_CT_and_surgery f ! i)
         (Survival_Status f ! i)"
    by auto
  from b(3) assms(3) have "sv ! i =
       survival_record (las ! i) (cts ! i) (Days_between_CT_and_surgery f ! i)
         (Survival_Status f ! i)"
    by blast
  then have r: "snd (sv ! i) = Some (toordinal d1 - toordinal d0 - n)"
    using assms(4-8) by (simp add: survival_record_parsed)
  have "(0 \<le> toordinal d1 - toordinal d0 - n \<longleftrightarrow> toordinal d0 + n \<le> toordinal d1) \<and>
        (toordinal d1 - toordinal d0 - n < 0 \<longleftrightarrow> toordinal d1 < toordinal d0 + n)"
    by arith
  with b(1,2) r assms(3) show ?thesis by simp
qed

theorem time_sign_witness:
  "(\<exists>g sv t. build mixed_rows = Inr (g, sv) \<and> snd (sv ! 0) = Some t \<and> t = 156 \<and> 0 \<le> t) \<and>
   (\<exists>g sv t. build mixed_rows = Inr (g, sv) \<and> snd (sv ! 3) = Some t \<and> t = - 5 \<and> t < 0)"
proof -
  have h1: "clinical_table mixed_rows mixed_las mixed_cts" by code_simp
  have h2: "runs_through mixed_las mixed_cts" by code_simp
  from build_rows [OF h1 h2] obtain g sv where b: "build mixed_rows = Inr (g, sv)"
    by blast
  have r0: "0 < nrows mixed_rows" "mixed_las ! 0 = Some ''06/15/2020''"
    "strptime ''06/15/2020'' = Inr (Date 2020 6 15)"
    "mixed_cts ! 0 = Some ''01/01/2020''" "strptime ''01/01/2020'' = Inr (Date 2020 1 1)"
    "Days_between_CT_and_surgery mixed_rows ! 0 = Some 10"
    by code_simp+
  have r3: "3 < nrows mixed_rows" "mixed_las ! 3 = Some ''01/01/2020''"
    "strptime ''01/01/2020'' = Inr (Date 2020 1 1)"
    "mixed_cts ! 3 = Some ''01/06/2020''" "strptime ''01/06/2020'' = Inr (Date 2020 1 6)"
    "Days_between_CT_and_surgery mixed_rows ! 3 = Some 0"
    by code_simp+
  have e0: "toordinal (Date 2020 6 15) - toordinal (Date 2020 1 1) - 10 = 156" by code_simp
  have e3: "toordinal (Date 2020 1 1) - toordinal (Date 2020 1 6) - 0 = - 5" by code_simp
  from time_sign [OF h1 b r0] e0
  have "snd (sv ! 0) = Some 156" by simp
  moreover from time_sign [OF h1 b r3] e3
  have "snd (sv ! 3) = Some (- 5)" by simp
  ultimately show ?thesis using b by auto
qed

text \<open>
  The claim as stated fails on a table of four records: the fourth has the time -5 (and
  the second and third, with a missing offset or date, have no number at all).
\<close>

theorem mixed_rows_negative_time:
  "survival_data (snd (run_cell (fresh mixed_rows))) =
     Some [(True, Some 156), (True, None), (False, None), (False, Some (- 5))]"
  by code_simp

subsection \<open>The end-to-end example\<close>

text \<open>
  Claim C7, as amended. For the record with date last known alive 2020-06-15, CT date
  2020-01-01, offset 10 and status Death (the dates written \<^verbatim>\<open>06/15/2020\<close> and
  \<^verbatim>\<open>01/01/2020\<close> as the format asks), the cell gives time 156 and event true: the
  166 days between the two dates, minus the offset.
\<close>

theorem example_row_156:
  "build example_row =
     Inr (example_row\<lparr>Date_of_Last_Known_Alive := DatetimeCol [Some (Date 2020 6 15)],
                      CT_Date := DatetimeCol [Some (Date 2020 1 1)],
                      time := Some [Some 156], event := Some [True]\<rparr>,
          [(True, Some 156)]) \<and>
   toordinal (Date 2020 6 15) - toordinal (Date 2020 1 1) = 166"
  by code_simp

text \<open>
  The claim as stated gives the time 166, which is the number of days between the dates
  before the offset is subtracted.
\<close>

theorem example_row_not_166:
  "survival_data (snd (run_cell (fresh example_row))) \<noteq> Some [(True, Some 166)]"
  by code_simp

subsection \<open>Determinism and the input table\<close>

text \<open>
  Claim C8. The outcome of a run of the cell (the exception, or the frame bound to
  \<^verbatim>\<open>clinical_data\<close> with the array bound to \<^verbatim>\<open>survival_data\<close>) is determined by
  the frame bound to \<^verbatim>\<open>clinical\<close>: two runs on equal input tables give equal
  outcomes, whatever else the two sessions hold (other objects, values left in
  \<^verbatim>\<open>clinical_data\<close> and \<^verbatim>\<open>survival_data\<close> by earlier runs).
\<close>

theorem run_cell_deterministic:
  assumes "clinical s = Some a" and "clinical s' = Some a'"
    and "heap s ! a = heap s' ! a'"
  shows "outcome (run_cell s) = outcome (run_cell s')"
  using assms by (simp add: outcome_run_cell)

theorem run_cell_deterministic_witness:
  "outcome (run_cell (fresh example_row)) = outcome (run_cell later_session)"
proof -
  have "clinical (fresh example_row) = Some 0" "clinical later_session = Some 1"
    "heap (fresh example_row) ! 0 = heap later_session ! 1"
    by (simp_all add: fresh_def later_session_def)
  from run_cell_deterministic [OF this] show ?thesis .
qed

text \<open>
  Claim C9. A run of the cell, whether it ends normally or raises, leaves the input
  table as it was: \<^verbatim>\<open>clinical\<close> is bound to the same object, that object and every
  other object that existed before hold what they held, and \<^verbatim>\<open>clinical_data\<close> is
  bound to a new object, the copy the cell works on.
\<close>

theorem input_table_unchanged:
  assumes "clinical s = Some a" and "a < length (heap s)"
  shows "clinical (snd (run_cell s)) = Some a \<and>
         heap (snd (run_cell s)) ! a = heap s ! a \<and>
         take (length (heap s)) (heap (snd (run_cell s))) = heap s \<and>
         clinical_data (snd (run_cell s)) = Some (length (heap s))"
proof -
  from run_cell_heap [OF assms(1)] have h:
    "take (length (heap s)) (heap (snd (run_cell s))) = heap s"
    "clinical (snd (run_cell s)) = Some a"
    "clinical_data (snd (run_cell s)) = Some (length (heap s))"
    by simp_all
  have "take (length (heap s)) (heap (snd (run_cell s))) ! a = heap (snd (run_cell s)) ! a"
    using assms(2) by simp
  with h show ?thesis by simp
qed

theorem input_table_unchanged_witness:
  "clinical (snd (run_cell later_session)) = Some 1 \<and>
   heap (snd (run_cell later_session)) ! 1 = example_row \<and>
   take 3 (heap (snd (run_cell later_session))) = heap later_session \<and>
   clinical_data (snd (run_cell later_session)) = Some 3"
proof -
  have c: "clinical later_session = Some 1" and l: "1 < length (heap later_session)"
    by (simp_all add: later_session_def)
  have n: "length (heap later_session) = 3" "heap later_session ! 1 = example_row"
    by (simp_all add: later_session_def)
  from input_table_unchanged [OF c l] show ?thesis
    by (simp only: n)
qed

subsection \<open>A missing offset\<close>

text \<open>
  Claim C10, as amended. Whether the cell fails is decided by the two date columns
  alone: a missing offset never makes it fail. In a table of clinical records (offsets
  of at most 52 bits) that the cell runs through (no date string refused, no row with
  its two dates more than 106751 days apart), a row
  whose offset is missing is not left out: it is in the output with an undefined time
  (NaN), and its event is classified from its status label as for any other row.
\<close>

theorem missing_offset_gives_nan:
  assumes "clinical_table f las cts"
    and "i < nrows f"
    and "Days_between_CT_and_surgery f ! i = None"
  shows "((\<exists>g sv. build f = Inr (g, sv)) \<longleftrightarrow> runs_through las cts) \<and>
         (runs_through las cts \<longrightarrow>
            (\<exists>g sv tm ev. build f = Inr (g, sv) \<and> length sv = nrows f \<and>
               sv ! i = (classify_event (Survival_Status f ! i), None) \<and>
               time g = Some tm \<and> tm ! i = None \<and>
               event g = Some ev \<and> ev ! i = classify_event (Survival_Status f ! i)))"
proof (intro conjI impI)
  show "(\<exists>g sv. build f = Inr (g, sv)) \<longleftrightarrow> runs_through las cts"
    by (rule build_succeeds_iff [OF assms(1)])
next
  assume "runs_through las cts"
  from build_rows [OF assms(1) this] obtain g sv where b:
    "build f = Inr (g, sv)" "length sv = nrows f"
    "time g = Some (map snd sv)" "event g = Some (map fst sv)"
    "\<forall>i<nrows f. sv ! i =
       survival_record (las ! i) (cts ! i) (Days_between_CT_and_surgery f ! i)
         (Survival_Status f ! i)"
    by blast
  from b(5) assms(2) have "sv ! i =
       survival_record (las ! i) (cts ! i) (Days_between_CT_and_surgery f ! i)
         (Survival_Status f ! i)"
    by blast
  then have r: "sv ! i = (classify_event (Survival_Status f ! i), None)"
    using assms(3) by (simp add: survival_record_no_offset)
  have "map snd sv ! i = None" "map fst sv ! i = classify_event (Survival_Status f ! i)"
    using r assms(2) b(2) by simp_all
  with b(1-4) r
  show "\<exists>g sv tm ev. build f = Inr (g, sv) \<and> length sv = nrows f \<and>
               sv ! i = (classify_event (Survival_Status f ! i), None) \<and>
               time g = Some tm \<and> tm ! i = None \<and>
               event g = Some ev \<and> ev ! i = classify_event (Survival_Status f ! i)"
    by blast
qed

theorem missing_offset_gives_nan_witness:
  "\<exists>g sv tm ev. build mixed_rows = Inr (g, sv) \<and> length sv = nrows mixed_rows \<and>
     sv ! 1 = (True, None) \<and> time g = Some tm \<and> tm ! 1 = None \<and>
     event g = Some ev \<and> ev ! 1 = True"
proof -
  have h1: "clinical_table mixed_rows mixed_las mixed_cts" by code_simp
  have h2: "runs_through mixed_las mixed_cts" by code_simp
  have h4: "1 < nrows mixed_rows" by code_simp
  have h5: "Days_between_CT_and_surgery mixed_rows ! 1 = None" by code_simp
  have c: "classify_event (Survival_Status mixed_rows ! 1) = True" by code_simp
  from missing_offset_gives_nan [OF h1 h4 h5] h2
  have "\<exists>g sv tm ev. build mixed_rows = Inr (g, sv) \<and> length sv = nrows mixed_rows \<and>
     sv ! 1 = (classify_event (Survival_Status mixed_rows ! 1), None) \<and>
     time g = Some tm \<and> tm ! 1 = None \<and>
     event g = Some ev \<and> ev ! 1 = classify_event (Survival_Status mixed_rows ! 1)"
    by blast
  then show ?thesis unfolding c .
qed

text \<open>
  The claim as stated has the cell never fail on a row with a missing offset. It fails
  when the dates of that row are 106752 days apart, and when its date is no calendar
  day: the table decides, not the offset.
\<close>

theorem missing_offset_row_fails:
  "Days_between_CT_and_surgery far_rows ! 1 = None \<and>
   build far_rows = Inl OverflowError \<and>
   Days_between_CT_and_surgery refused_rows ! 1 = None \<and>
   build refused_rows = Inl ValueError"
  by code_simp

end
